theory Spec2Isabelle
  imports Complex_Main "HOL-Library.Multiset"
begin

section \<open>Client-side cost and budget widgets\<close>

text \<open>
  JavaScript numbers are modelled as exact rationals: the widgets below only multiply,
  subtract and divide finite amounts of money and time. The decimal constants of the
  source (\<open>0.526\<close>, \<open>0.3\<close>, \<open>0.15\<close>) are the fractions they denote; the
  rounding of a result to the nearest double is not modelled. The \<open>toFixed\<close>
  formatting applied to a value just before it is shown is not part of the model
  either: every function returns the number that is handed to \<open>toFixed\<close>.
\<close>

subsection \<open>components/widgets/CostCalculator.tsx\<close>

text \<open>
  \<^verbatim>\<open>
  const calculateCost = () => {
    let baseCost = modelConfig.estimatedTime * 0.526; // GPU on-demand
    if (useSpot) baseCost *= 0.3; // 70% savings
    if (useCPU) baseCost *= 0.15; // CPU much cheaper but slower
    return baseCost;
  };
  const savings = modelConfig.estimatedTime * 0.526 - calculateCost();
  \<close>
  The two toggles are React state of the component; they are arguments here.
\<close>

definition calculateCost :: "rat \<Rightarrow> bool \<Rightarrow> bool \<Rightarrow> rat" where
  "calculateCost estimatedTime useSpot useCPU =
     (let baseCost = estimatedTime * (526 / 1000);
          baseCost = (if useSpot then baseCost * (3 / 10) else baseCost);
          baseCost = (if useCPU then baseCost * (15 / 100) else baseCost)
      in baseCost)"

definition savings :: "rat \<Rightarrow> bool \<Rightarrow> bool \<Rightarrow> rat" where
  "savings estimatedTime useSpot useCPU =
     estimatedTime * (526 / 1000) - calculateCost estimatedTime useSpot useCPU"

subsection \<open>components/sidebar/BudgetDisplay.tsx\<close>

text \<open>
  \<^verbatim>\<open>
  export function BudgetDisplay({ spent = 0, limit = 50, savings = 0 }: BudgetDisplayProps) {
    const percentUsed = (spent / limit) * 100;
    ... {percentUsed.toFixed(1)}% used ... <Progress value={percentUsed} />
    ... ${spent.toFixed(2)} / ${limit.toFixed(2)} ... ${(limit - spent).toFixed(2)} left
    {savings > 0 && ( ... Saved ${savings.toFixed(2)} with optimizations ... )}
  \<close>
  All three props are optional; a destructuring default replaces a prop that is
  \<open>undefined\<close>, here \<open>None\<close>. The props that are passed are finite numbers.

  A JavaScript division does not fail on a zero divisor: it yields an infinity or
  \<open>NaN\<close>. HOL's \<open>x / 0 = 0\<close> would hide that, so the result of an operation has a
  type of its own. Nor is a result of any size a number: one whose magnitude reaches
  \<open>2^1024 - 2^970\<close>, half a unit in the last place above the largest double, is an
  infinity. Below that bound a result is the exact rational; signed zeros are not
  distinguished.
\<close>

datatype js_number = Num rat | Infinity | NegInfinity | NaN

definition double_overflow :: rat where
  "double_overflow = 2 ^ 1024 - 2 ^ 970"

definition js_result :: "rat \<Rightarrow> js_number" where
  "js_result r =
     (if double_overflow \<le> r then Infinity
      else if r \<le> - double_overflow then NegInfinity
      else Num r)"

definition js_div :: "rat \<Rightarrow> rat \<Rightarrow> js_number" where
  "js_div a b =
     (if b \<noteq> 0 then js_result (a / b)
      else if 0 < a then Infinity
      else if a < 0 then NegInfinity
      else NaN)"

fun js_times :: "js_number \<Rightarrow> rat \<Rightarrow> js_number" where
  "js_times (Num a) c = js_result (a * c)"
| "js_times Infinity c = (if 0 < c then Infinity else if c < 0 then NegInfinity else NaN)"
| "js_times NegInfinity c = (if 0 < c then NegInfinity else if c < 0 then Infinity else NaN)"
| "js_times NaN c = NaN"

definition js_minus :: "rat \<Rightarrow> rat \<Rightarrow> js_number" where
  "js_minus a b = js_result (a - b)"


definition js_default :: "'a \<Rightarrow> 'a option \<Rightarrow> 'a" where
  "js_default d prop = (case prop of None \<Rightarrow> d | Some v \<Rightarrow> v)"

record BudgetDisplayView =
  percentUsed :: js_number
  spentShown :: rat
  limitShown :: rat
  leftShown :: js_number
  savingsShown :: "rat option"

definition BudgetDisplay :: "rat option \<Rightarrow> rat option \<Rightarrow> rat option \<Rightarrow> BudgetDisplayView" where
  "BudgetDisplay spent_prop limit_prop savings_prop =
     (let spent = js_default 0 spent_prop;
          limit = js_default 50 limit_prop;
          savings = js_default 0 savings_prop
      in \<lparr> percentUsed = js_times (js_div spent limit) 100,
           spentShown = spent,
           limitShown = limit,
           leftShown = js_minus limit spent,
           savingsShown = (if 0 < savings then Some savings else None) \<rparr>)"

section \<open>Budget Tracker\<close>

subsection \<open>types/budget.ts\<close>

text \<open>
  \<^verbatim>\<open>
  export interface BudgetInfo {
    id: string;  type: 'global' | 'session';
    limit: number;  spent: number;  remaining: number;
    session_id?: string;  session_name?: string;
    updated_at: number;  updated_at_iso: string;
  }
  \<close>
  \<open>id\<close> and \<open>type\<close> are renamed: the first is HOL's identity function, the second a
  keyword.
\<close>

datatype budget_type = Global | Session

record BudgetInfo =
  budget_id :: string
  budget_type :: budget_type
  limit :: rat
  spent :: rat
  remaining :: rat
  session_id :: "string option"
  session_name :: "string option"
  updated_at :: int
  updated_at_iso :: string

subsection \<open>The tracker\<close>

text \<open>
  Modelled from the spec: the Budget Tracker (\<open>canAfford\<close>, \<open>record\<close> and the gate in
  front of a paid action) is server code that is not among the sources; only the
  \<open>BudgetInfo\<close> type it reports to the client is. Sections 3, 4.3 and 8 of the
  specification: a budget record has a scope (\<open>global\<close> or \<open>session:<id>\<close>), a limit and
  the amount spent; \<open>canAfford(scope, amount)\<close> answers whether the amount still fits
  under the limit; \<open>record(scope, amount)\<close> adds the amount to the spend; both scopes
  must pass \<open>canAfford\<close> before a paid action proceeds, and an action that does not
  pass is refused with \<open>BudgetExceeded\<close> and spends nothing. The \<open>remaining\<close> field of
  \<open>BudgetInfo\<close> is kept as limit minus spent by \<open>record\<close>.
\<close>

datatype scope = GlobalScope | SessionScope string

type_synonym tracker = "scope \<Rightarrow> BudgetInfo"

definition canAfford :: "tracker \<Rightarrow> scope \<Rightarrow> rat \<Rightarrow> bool" where
  "canAfford tr sc amount = (spent (tr sc) + amount \<le> limit (tr sc))"

definition record_spend :: "tracker \<Rightarrow> scope \<Rightarrow> rat \<Rightarrow> tracker" where
  "record_spend tr sc amount =
     tr(sc := (tr sc)\<lparr> spent := spent (tr sc) + amount,
                       remaining := limit (tr sc) - (spent (tr sc) + amount) \<rparr>)"

datatype budget_error = BudgetExceeded

definition paid_action :: "tracker \<Rightarrow> string \<Rightarrow> rat \<Rightarrow> budget_error + tracker" where
  "paid_action tr sid amount =
     (if canAfford tr (SessionScope sid) amount \<and> canAfford tr GlobalScope amount
      then Inr (record_spend (record_spend tr (SessionScope sid) amount) GlobalScope amount)
      else Inl BudgetExceeded)"

text \<open>
  A tracker for the examples: session \<open>s1\<close> has spent 2 of 5, every other session
  0 of 50, and the global scope 490 of 500.
\<close>

definition demo_budget :: "budget_type \<Rightarrow> rat \<Rightarrow> rat \<Rightarrow> BudgetInfo" where
  "demo_budget ty l s =
     \<lparr> budget_id = ''budget'', budget_type = ty, limit = l, spent = s, remaining = l - s,
       session_id = None, session_name = None, updated_at = 0, updated_at_iso = [] \<rparr>"

definition demo_tracker :: tracker where
  "demo_tracker sc =
     (case sc of
        GlobalScope \<Rightarrow> demo_budget Global 500 490
      | SessionScope sid \<Rightarrow> if sid = ''s1'' then demo_budget Session 5 2 else demo_budget Session 50 0)"

section \<open>ReAct Orchestrator\<close>

text \<open>
  Modelled from the spec: the orchestrator's loop (\<open>react_agent.py\<close>) is not among the
  sources. The README quotes its outline,
  \<^verbatim>\<open>
  while not task_complete and iteration < MAX_REACT_ITERATIONS:
      thought_response = await _think_step(..., conversation_history=conversation, ...)
      tool_calls = _parse_tool_calls(thought_response)
      tool_results = await execute_tools(tool_calls)
      conversation.append(observation)
      if has_enough_information():
          task_complete = True
  \<close>
  and section 4.1 of the specification fixes what it leaves out: every
  think-act-observe cycle counts towards a hard maximum per user turn (domain default
  10), and reaching the bound without a completion signal ends the turn with a
  partial-results message (\<open>IterationLimitReached\<close>).

  The reasoning engine and the tools are the environment of the loop: one cycle is any
  function from the iteration number and the conversation so far to the observation
  that is appended and to whether the completion marker was given. An adversarial
  input is a function that never gives it.
\<close>

record react_state =
  conversation :: "string list"
  iteration :: nat
  task_complete :: bool

type_synonym cycle = "nat \<Rightarrow> string list \<Rightarrow> string \<times> bool"

function react_loop :: "nat \<Rightarrow> cycle \<Rightarrow> react_state \<Rightarrow> react_state" where
  "react_loop max_iterations think_act_observe s =
     (if \<not> task_complete s \<and> iteration s < max_iterations
      then react_loop max_iterations think_act_observe
             \<lparr> conversation =
                 conversation s @ [fst (think_act_observe (iteration s) (conversation s))],
               iteration = iteration s + 1,
               task_complete = snd (think_act_observe (iteration s) (conversation s)) \<rparr>
      else s)"
  by pat_completeness auto
termination
  by (relation "measure (\<lambda>(max_iterations, c, s). max_iterations - iteration s)") auto

declare react_loop.simps [simp del]

definition MAX_REACT_ITERATIONS :: nat where
  "MAX_REACT_ITERATIONS = 10"

datatype turn_end = Complete | IterationLimitReached

record turn_result =
  ending :: turn_end
  cycles :: nat
  transcript :: "string list"
  partial_results :: "string list option"

definition handle_turn :: "nat \<Rightarrow> cycle \<Rightarrow> string list \<Rightarrow> string \<Rightarrow> turn_result" where
  "handle_turn max_iterations think_act_observe history userText =
     (let s = react_loop max_iterations think_act_observe
                \<lparr> conversation = history @ [userText], iteration = 0, task_complete = False \<rparr>
      in if task_complete s
         then \<lparr> ending = Complete, cycles = iteration s, transcript = conversation s,
                partial_results = None \<rparr>
         else \<lparr> ending = IterationLimitReached, cycles = iteration s, transcript = conversation s,
                partial_results = Some (drop (length history + 1) (conversation s)) \<rparr>)"


section \<open>Tool Gateway\<close>

text \<open>
  Of \<open>gateway_service.py\<close> the README quotes the registry, the constructor and the
  direct call:
  \<^verbatim>\<open>
  class GatewayClient:
      _TOOL_REGISTRY = {
          "check_sagemaker_quotas": {"lambda_function_name": "llmops-tool-check-sagemaker-quotas", ...},
          "prepare_dataset": {"lambda_function_name": "llmops-tool-prepare-dataset", ...},
          "list_s3_datasets": {"lambda_function_name": "llmops-tool-list-datasets", ...},
          "launch_sagemaker_training": {"lambda_function_name": "llmops-tool-launch-training", ...} }

      def __init__(self, gateway_id: Optional[str] = None):
          self.gateway_id = gateway_id or settings.agentcore_gateway_id
          if self.gateway_id == "gtw-local-fallback":
              self._fallback_mode = True
              self._lambda_client = boto3.client('lambda')
          else:
              self._fallback_mode = False
              self._gateway = AGCGatewayClient(gateway_id=self.gateway_id)

      def _invoke_lambda_directly(self, tool_name, parameters):
          function_name = self._TOOL_REGISTRY[tool_name]["lambda_function_name"]
          response = self._lambda_client.invoke(FunctionName=function_name,
              InvocationType='RequestResponse', Payload=json.dumps(parameters))
          return json.loads(response['Payload'].read())
  \<close>
  \<open>list_tools\<close>, \<open>invoke_tool\<close> and the client of the routing service are not quoted.
  The setting and the Lambda service are arguments; Python's \<open>or\<close> takes \<open>None\<close> and the
  empty string as false; a missing key raises \<open>KeyError\<close>.
\<close>

record GatewayClient =
  gateway_id :: string
  fallback_mode :: bool

definition GatewayClient_init :: "string option \<Rightarrow> string \<Rightarrow> GatewayClient" where
  "GatewayClient_init gateway_id_arg agentcore_gateway_id =
     (let gid = (case gateway_id_arg of
                   None \<Rightarrow> agentcore_gateway_id
                 | Some g \<Rightarrow> if g \<noteq> [] then g else agentcore_gateway_id)
      in \<lparr> gateway_id = gid, fallback_mode = (gid = ''gtw-local-fallback'') \<rparr>)"

definition TOOL_REGISTRY :: "(string \<times> string) list" where
  "TOOL_REGISTRY =
     [(''check_sagemaker_quotas'', ''llmops-tool-check-sagemaker-quotas''),
      (''prepare_dataset'', ''llmops-tool-prepare-dataset''),
      (''list_s3_datasets'', ''llmops-tool-list-datasets''),
      (''launch_sagemaker_training'', ''llmops-tool-launch-training'')]"

datatype py_error = KeyError string

definition invoke_lambda_directly ::
  "(string \<Rightarrow> 'p \<Rightarrow> 'r) \<Rightarrow> string \<Rightarrow> 'p \<Rightarrow> py_error + 'r" where
  "invoke_lambda_directly lambda_invoke tool_name parameters =
     (case map_of TOOL_REGISTRY tool_name of
        None \<Rightarrow> Inl (KeyError tool_name)
      | Some function_name \<Rightarrow> Inr (lambda_invoke function_name parameters))"

section \<open>Jobs\<close>

subsection \<open>types/jobs.ts\<close>

text \<open>
  \<^verbatim>\<open>
  export interface Job {
    id: string;  name: string;
    type: 'training' | 'deployment' | 'benchmark';
    status: 'queued' | 'training' | 'completed' | 'failed';
    progress: number;  eta: number;  cost_so_far: number;  started_at: string;
    completed_at?: string;  session_id?: string;
    config: { task_type: string; base_model: string; dataset: string;
              optimization: string; constraints: Record<string, any>; };
    metrics?: { ... };  error?: string;
  }
  \<close>
  TypeScript's string-literal unions are not checked at run time, and the hook below
  fills \<open>status\<close> from untyped server data, so the field is a string here and the
  union is kept as the list of its members. The optional fields, which the hook never
  sets, are left out; \<open>id\<close>, \<open>name\<close> and \<open>type\<close> carry the prefix \<open>job_\<close>.
\<close>

record JobConfig =
  task_type :: string
  base_model :: string
  dataset :: string
  optimization :: string
  constraints :: "(string \<times> string) list"

record Job =
  job_id :: string
  job_name :: string
  job_type :: string
  status :: string
  progress :: rat
  eta :: rat
  cost_so_far :: rat
  started_at :: string
  config :: JobConfig

definition Job_status_values :: "string list" where
  "Job_status_values = [''queued'', ''training'', ''completed'', ''failed'']"

text \<open>
  The specification's Job (section 3): status \<open>queued | running | completed | failed\<close>,
  terminal states \<open>completed\<close> and \<open>failed\<close>.
\<close>

definition spec_Job_status_values :: "string list" where
  "spec_Job_status_values = [''queued'', ''running'', ''completed'', ''failed'']"

definition spec_terminal_states :: "string list" where
  "spec_terminal_states = [''completed'', ''failed'']"

subsection \<open>Status tests of the pages\<close>

text \<open>
  \<open>app/jobs/page.tsx\<close>, the auto-refresh test and the \<open>active\<close> filter:
  \<^verbatim>\<open>['queued', 'training'].includes(job.status)\<close>;
  the \<open>succeeded\<close> and \<open>failed\<close> filters:
  \<^verbatim>\<open>job.status === 'completed'\<close>, \<^verbatim>\<open>job.status === 'failed'\<close>.
\<close>

definition isActiveStatus :: "string \<Rightarrow> bool" where
  "isActiveStatus s = (s \<in> set [''queued'', ''training''])"

definition isFinishedStatus :: "string \<Rightarrow> bool" where
  "isFinishedStatus s = (s = ''completed'' \<or> s = ''failed'')"

text \<open>
  \<open>hooks/useAgent.ts\<close>, \<open>loadActiveJobs\<close>:
  \<^verbatim>\<open>data.jobs.filter((job: any) => job.status === 'training' || job.status === 'pending')\<close>
\<close>

definition loadActiveJobs_filter :: "string \<Rightarrow> bool" where
  "loadActiveJobs_filter s = (s = ''training'' \<or> s = ''pending'')"

text \<open>
  \<open>app/chat/page.tsx\<close>, \<open>handleSendMessage\<close>, half a second after the send:
  \<^verbatim>\<open>
  if (activeJobs.length > 0) {
    const latestJob = activeJobs[activeJobs.length - 1];
    if (latestJob.status === 'running') { addToast({ ... 'Training Job Started' ... }); }
  }
  \<close>
\<close>

definition jobStartedToast :: "Job list \<Rightarrow> bool" where
  "jobStartedToast activeJobs = (activeJobs \<noteq> [] \<and> status (last activeJobs) = ''running'')"

section \<open>hooks/useAgent.ts\<close>

subsection \<open>JavaScript strings\<close>

text \<open>
  A value that may be \<open>undefined\<close> is an \<open>option\<close>. String concatenation and template
  literals print \<open>undefined\<close> as the word; \<open>a || b\<close> and \<open>a ? b : c\<close> take an
  absent or empty string as false. Characters outside ASCII are their UTF-8 bytes.
\<close>

definition js_text :: "string option \<Rightarrow> string" where
  "js_text v = (case v of None \<Rightarrow> ''undefined'' | Some s \<Rightarrow> s)"

definition js_truthy :: "string option \<Rightarrow> bool" where
  "js_truthy v = (case v of None \<Rightarrow> False | Some s \<Rightarrow> s \<noteq> [])"

definition js_or :: "string option \<Rightarrow> string \<Rightarrow> string" where
  "js_or v d = (if js_truthy v then the v else d)"

fun join :: "string \<Rightarrow> string list \<Rightarrow> string" where
  "join sep [] = []"
| "join sep [x] = x"
| "join sep (x # y # ys) = x @ sep @ join sep (y # ys)"

definition is_space :: "char \<Rightarrow> bool" where
  "is_space c = (c \<in> set [CHR '' '', CHR 0x09, CHR 0x0A, CHR 0x0B, CHR 0x0C, CHR 0x0D])"

definition trim :: "string \<Rightarrow> string" where
  "trim s = rev (dropWhile is_space (rev (dropWhile is_space s)))"

definition newline :: string where
  "newline = [CHR 0x0A]"

definition check_mark :: string where
  "check_mark = [CHR 0xE2, CHR 0x9C, CHR 0x85]"

subsection \<open>State of the hook\<close>

text \<open>
  \<^verbatim>\<open>
  export type Message = { role: 'user' | 'agent'; message?: string; timestamp: string;
                          type?: string; data?: any; };
  const [messages, setMessages] = useState<Message[]>([]);
  const [isTyping, setIsTyping] = useState<boolean>(false);
  const [activeJobs, setActiveJobs] = useState<Job[]>([]);
  const [sessionId, setSessionId] = useState(...);
  const [isSending, setIsSending] = useState<boolean>(false);   // Guard to prevent double-calls
  \<close>
  The only \<open>data\<close> the hook builds is \<open>{ thinkingSteps: ... }\<close>. \<open>showThinking\<close> and
  \<open>thinkingMessages\<close> are never written by the functions modelled here and are left
  out.
\<close>

record Message =
  role :: string
  message :: "string option"
  timestamp :: string
  msg_type :: "string option"
  thinkingSteps :: "string option list option"

record AgentHook =
  messages :: "Message list"
  isTyping :: bool
  activeJobs :: "Job list"
  sessionId :: string
  isSending :: bool

subsection \<open>Events of the chat stream\<close>

text \<open>
  The parsed \<open>data:\<close> object of an SSE event, with the properties the consumer reads.
  \<open>ev_count\<close> is the text JavaScript prints for \<open>eventData.count\<close>.
\<close>

record EventData =
  ev_message :: "string option"
  ev_step :: "string option"
  ev_count :: "string option"
  ev_models :: "string list option"
  ev_job_ids :: "string list option"
  ev_model :: "string option"
  ev_top_model :: "string option"

text \<open>
  The locals of one \<open>sendMessage\<close> call: \<open>agentResponse\<close> and \<open>currentThinkingSteps\<close>.
\<close>

record SendLocals =
  agentResponse :: string
  currentThinkingSteps :: "string option list"

datatype js_error = TypeError string | SyntaxError string | Error string

fun error_message :: "js_error \<Rightarrow> string" where
  "error_message (TypeError m) = m"
| "error_message (SyntaxError m) = m"
| "error_message (Error m) = m"

text \<open>
  \<^verbatim>\<open>
  addJob({ id: job_id,
           name: eventData.model ? `${eventData.model} Training` : job_id,
           status: 'training', progress: 0, eta: 10, cost_so_far: 0,
           started_at: new Date().toISOString(), type: 'training',
           config: { task_type: 'token-classification',
                     base_model: eventData.model || 'distilbert-base-cased',
                     dataset: 'DFKI-SLT/ciER', optimization: 'LoRA', constraints: {} } });
  \<close>
  The clock is an argument.
\<close>

definition launched_job :: "string \<Rightarrow> EventData \<Rightarrow> string \<Rightarrow> Job" where
  "launched_job now eventData jid =
     \<lparr> job_id = jid,
       job_name = (if js_truthy (ev_model eventData)
                   then js_text (ev_model eventData) @ '' Training'' else jid),
       job_type = ''training'',
       status = ''training'',
       progress = 0,
       eta = 10,
       cost_so_far = 0,
       started_at = now,
       config = \<lparr> task_type = ''token-classification'',
                  base_model = js_or (ev_model eventData) ''distilbert-base-cased'',
                  dataset = ''DFKI-SLT/ciER'',
                  optimization = ''LoRA'',
                  constraints = [] \<rparr> \<rparr>"

text \<open>
  The dispatch on the event type, lines 124 to 160 of the hook:
  \<^verbatim>\<open>
  if (eventType === 'conversational_response') { agentResponse += eventData.message; }
  else if (eventType === 'agent_thinking') { currentThinkingSteps.push(eventData.message); }
  else if (eventType === 'workflow_step') {
    currentThinkingSteps.push(`${eventData.step || 'Processing'}: ${eventData.message}`); }
  else if (eventType === 'candidates_found') {
    agentResponse += `\n\nFound ${eventData.count} model candidates:\n${eventData.models.join(', ')}`; }
  else if (eventType === 'jobs_launched') {
    eventData.job_ids.forEach((job_id, idx) => { addJob({...}); });
    agentResponse += `\n\nLaunched ${eventData.count} training jobs`; }
  else if (eventType === 'recommendations_ready') {
    agentResponse += `\n\nTop recommendation: ${eventData.top_model}`; }
  else if (eventType === 'workflow_complete') {
    agentResponse += `\n\n(check mark) Workflow completed successfully!`; }
  \<close>
  There is no final \<open>else\<close>. Calling \<open>join\<close> or \<open>forEach\<close> on a missing property
  throws a \<open>TypeError\<close>; its message is the engine's (V8's here, less the quotes
  around the property name). \<open>addJob\<close> appends to \<open>activeJobs\<close>, which is threaded
  through as the second component.
\<close>

definition handle_event ::
  "string \<Rightarrow> string \<Rightarrow> EventData \<Rightarrow> SendLocals \<times> Job list \<Rightarrow> js_error + SendLocals \<times> Job list" where
  "handle_event now eventType eventData st =
     (let loc = fst st; jobs = snd st in
      if eventType = ''conversational_response'' then
        Inr (loc\<lparr> agentResponse := agentResponse loc @ js_text (ev_message eventData) \<rparr>, jobs)
      else if eventType = ''agent_thinking'' then
        Inr (loc\<lparr> currentThinkingSteps := currentThinkingSteps loc @ [ev_message eventData] \<rparr>, jobs)
      else if eventType = ''workflow_step'' then
        Inr (loc\<lparr> currentThinkingSteps := currentThinkingSteps loc @
               [Some (js_or (ev_step eventData) ''Processing'' @ '': ''
                        @ js_text (ev_message eventData))] \<rparr>, jobs)
      else if eventType = ''candidates_found'' then
        (case ev_models eventData of
           None \<Rightarrow> Inl (TypeError ''Cannot read properties of undefined (reading join)'')
         | Some models \<Rightarrow>
             Inr (loc\<lparr> agentResponse := agentResponse loc @ newline @ newline @ ''Found ''
                    @ js_text (ev_count eventData) @ '' model candidates:'' @ newline
                    @ join '', '' models \<rparr>, jobs))
      else if eventType = ''jobs_launched'' then
        (case ev_job_ids eventData of
           None \<Rightarrow> Inl (TypeError ''Cannot read properties of undefined (reading forEach)'')
         | Some job_ids \<Rightarrow>
             Inr (loc\<lparr> agentResponse := agentResponse loc @ newline @ newline @ ''Launched ''
                    @ js_text (ev_count eventData) @ '' training jobs'' \<rparr>,
                  jobs @ map (launched_job now eventData) job_ids))
      else if eventType = ''recommendations_ready'' then
        Inr (loc\<lparr> agentResponse := agentResponse loc @ newline @ newline
               @ ''Top recommendation: '' @ js_text (ev_top_model eventData) \<rparr>, jobs)
      else if eventType = ''workflow_complete'' then
        Inr (loc\<lparr> agentResponse := agentResponse loc @ newline @ newline @ check_mark
               @ '' Workflow completed successfully!'' \<rparr>, jobs)
      else Inr st)"

text \<open>The event types that have a branch, in the order of the branches.\<close>

definition handled_event_types :: "string list" where
  "handled_event_types =
     [''conversational_response'', ''agent_thinking'', ''workflow_step'', ''candidates_found'',
      ''jobs_launched'', ''recommendations_ready'', ''workflow_complete'']"

text \<open>
  The event stream contract of the specification (section 4.1): the events are
  \<open>reasoning-step\<close>, \<open>tool-invoked\<close>, \<open>tool-result\<close>, \<open>conversational-chunk\<close>,
  \<open>jobs-launched\<close>, \<open>constraint-conflict\<close>, \<open>completed\<close>, \<open>error\<close>.
\<close>

definition spec_event_types :: "string list" where
  "spec_event_types =
     [''reasoning-step'', ''tool-invoked'', ''tool-result'', ''conversational-chunk'',
      ''jobs-launched'', ''constraint-conflict'', ''completed'', ''error'']"

subsection \<open>sendMessage\<close>

text \<open>
  \<open>sendMessage\<close> is built by \<open>useCallback(..., [sessionId, addJob, isSending])\<close>: the
  function a render hands out reads the \<open>isSending\<close> and \<open>sessionId\<close> of that render.
  A state setter does not change what an already built function reads; the next render
  builds a new function.
\<close>

record SendClosure =
  seen_isSending :: bool
  seen_sessionId :: string

definition render :: "AgentHook \<Rightarrow> SendClosure" where
  "render h = \<lparr> seen_isSending = isSending h, seen_sessionId = sessionId h \<rparr>"

text \<open>The body of the POST to \<open>/api/agent/chat-stream\<close>.\<close>

record Request =
  req_message :: string
  req_session_id :: string

text \<open>
  Up to the first \<open>await\<close>, which is the \<open>fetch\<close>:
  \<^verbatim>\<open>
  if (isSending) { console.warn('Blocked duplicate sendMessage call'); return; }
  setIsSending(true);
  const userMsg: Message = { role: 'user', message: text,
                             timestamp: new Date().toLocaleTimeString() };
  setMessages((prev) => [...prev, userMsg]);
  setIsTyping(true);
  try {
    const response = await fetch(`${getApiUrl()}/api/agent/chat-stream`, { method: 'POST', ...
        body: JSON.stringify({ message: text, session_id: sessionId }) });
  \<close>
  The result is the state after the queued updates and the request, if one was issued.
\<close>

definition sendMessage_begin ::
  "SendClosure \<Rightarrow> string \<Rightarrow> string \<Rightarrow> AgentHook \<Rightarrow> AgentHook \<times> Request option" where
  "sendMessage_begin closure text nowTime h =
     (if seen_isSending closure then (h, None)
      else (h\<lparr> isSending := True,
                messages := messages h @
                  [\<lparr> role = ''user'', message = Some text, timestamp = nowTime,
                     msg_type = None, thinkingSteps = None \<rparr>],
                isTyping := True \<rparr>,
            Some \<lparr> req_message = text, req_session_id = seen_sessionId closure \<rparr>))"

text \<open>
  What comes back: \<open>fetch\<close> rejects, or the status is not ok, or there is no body, or
  the body is a stream of blocks separated by blank lines. A block with an \<open>event:\<close>
  and a \<open>data:\<close> line is an event once \<open>JSON.parse\<close> accepts the data; a blank block or
  one that lacks either line is skipped.
\<close>

datatype sse_block = SseEvent string EventData | SseBadJson string | SseSkipped

datatype response = FetchFailed string | NotOk string string | OkNoBody | OkStream "sse_block list"

fun process_blocks ::
  "string \<Rightarrow> sse_block list \<Rightarrow> SendLocals \<times> Job list \<Rightarrow> js_error \<times> Job list + SendLocals \<times> Job list" where
  "process_blocks nowIso [] st = Inr st"
| "process_blocks nowIso (SseSkipped # blocks) st = process_blocks nowIso blocks st"
| "process_blocks nowIso (SseBadJson m # blocks) st = Inl (SyntaxError m, snd st)"
| "process_blocks nowIso (SseEvent eventType eventData # blocks) st =
     (case handle_event nowIso eventType eventData st of
        Inl e \<Rightarrow> Inl (e, snd st)
      | Inr st' \<Rightarrow> process_blocks nowIso blocks st')"

text \<open>
  After the stream has ended:
  \<^verbatim>\<open>
    if (agentResponse) {
      setMessages((prev) => [...prev, { role: 'agent', message: agentResponse.trim(),
        type: 'text', timestamp: new Date().toLocaleTimeString(),
        data: { thinkingSteps: currentThinkingSteps.length > 0 ? currentThinkingSteps : undefined } }]);
    }
  } catch (error) {
    setMessages((prev) => [...prev, { role: 'agent',
      message: `Error: ${error instanceof Error ? error.message : 'Failed to send message'}`,
      type: 'error', timestamp: new Date().toLocaleTimeString() }]);
  } finally {
    setIsTyping(false);
    setIsSending(false);  // Reset guard
  }
  \<close>
  Jobs added before an exception stay added.
\<close>

definition sendMessage_finish :: "string \<Rightarrow> string \<Rightarrow> response \<Rightarrow> AgentHook \<Rightarrow> AgentHook" where
  "sendMessage_finish nowTime nowIso resp h =
     (let start = (\<lparr> agentResponse = [], currentThinkingSteps = [] \<rparr>, activeJobs h);
          outcome =
            (case resp of
               FetchFailed m \<Rightarrow> Inl (TypeError m, activeJobs h)
             | NotOk code statusText \<Rightarrow> Inl (Error (''HTTP '' @ code @ '': '' @ statusText), activeJobs h)
             | OkNoBody \<Rightarrow> Inr start
             | OkStream blocks \<Rightarrow> process_blocks nowIso blocks start)
      in case outcome of
           Inr (loc, jobs) \<Rightarrow>
             h\<lparr> messages :=
                  (if agentResponse loc \<noteq> []
                   then messages h @
                     [\<lparr> role = ''agent'', message = Some (trim (agentResponse loc)),
                        timestamp = nowTime, msg_type = Some ''text'',
                        thinkingSteps = (if currentThinkingSteps loc \<noteq> []
                                         then Some (currentThinkingSteps loc) else None) \<rparr>]
                   else messages h),
                activeJobs := jobs, isTyping := False, isSending := False \<rparr>
         | Inl (e, jobs) \<Rightarrow>
             h\<lparr> messages := messages h @
                  [\<lparr> role = ''agent'', message = Some (''Error: '' @ error_message e),
                     timestamp = nowTime, msg_type = Some ''error'', thinkingSteps = None \<rparr>],
                activeJobs := jobs, isTyping := False, isSending := False \<rparr>)"

subsection \<open>The hook in use\<close>

text \<open>
  A component holds the \<open>sendMessage\<close> of the last render. It can call it, React can
  render again, and the oldest request in flight can come back.
\<close>

record World =
  hook :: AgentHook
  held :: SendClosure
  in_flight :: "Request list"

datatype action = Render | Send string string | Settle string string response

fun act :: "action \<Rightarrow> World \<Rightarrow> World" where
  "act Render w = w\<lparr> held := render (hook w) \<rparr>"
| "act (Send text nowTime) w =
     (case sendMessage_begin (held w) text nowTime (hook w) of
        (h, None) \<Rightarrow> w\<lparr> hook := h \<rparr>
      | (h, Some request) \<Rightarrow> w\<lparr> hook := h, in_flight := in_flight w @ [request] \<rparr>)"
| "act (Settle nowTime nowIso resp) w =
     (if in_flight w = [] then w
      else w\<lparr> hook := sendMessage_finish nowTime nowIso resp (hook w),
              in_flight := tl (in_flight w) \<rparr>)"

definition run :: "action list \<Rightarrow> World \<Rightarrow> World" where
  "run actions w = fold act actions w"

definition initial_world :: "string \<Rightarrow> World" where
  "initial_world sid =
     (let h = \<lparr> messages = [], isTyping = False, activeJobs = [], sessionId = sid,
                isSending = False \<rparr>
      in \<lparr> hook = h, held = render h, in_flight = [] \<rparr>)"

text \<open>
  The hook serves one request at a time when at most one is in flight and \<open>isSending\<close>
  says whether one is.
\<close>

definition one_at_a_time :: "World \<Rightarrow> bool" where
  "one_at_a_time w = (length (in_flight w) \<le> 1 \<and> isSending (hook w) = (in_flight w \<noteq> []))"

section \<open>Constraint negotiation\<close>

subsection \<open>types/agent.ts and components/dialogs/ConstraintNegotiation.tsx\<close>

text \<open>
  The two declarations of \<open>Conflict\<close>, as the lists of their fields:
  \<^verbatim>\<open>
  // types/agent.ts
  export interface Conflict { constraint: string; required: number | string;
                              achievable: number | string; gap: number; }
  // components/dialogs/ConstraintNegotiation.tsx
  interface Conflict { constraint: string; required: string; achievable: string; }
  \<close>
\<close>

datatype ts_type = TString | TNumber | TNumberOrString

definition agent_Conflict_fields :: "(string \<times> ts_type) list" where
  "agent_Conflict_fields =
     [(''constraint'', TString), (''required'', TNumberOrString),
      (''achievable'', TNumberOrString), (''gap'', TNumber)]"

definition dialog_Conflict_fields :: "(string \<times> ts_type) list" where
  "dialog_Conflict_fields =
     [(''constraint'', TString), (''required'', TString), (''achievable'', TString)]"

text \<open>The specification's conflict (section 4.4): constraint, required, achieved, gap.\<close>

definition spec_conflict_fields :: "string list" where
  "spec_conflict_fields = [''constraint'', ''required'', ''achieved'', ''gap'']"

text \<open>
  The dialog's own types. \<open>Alternative\<close> of \<open>types/agent.ts\<close> has the dialog's three
  fields and \<open>cost: number\<close>; it is the record extended by \<open>cost\<close>.
\<close>

record Conflict =
  constraint :: string
  required :: string
  achievable :: string

record Alternative =
  name :: string
  description :: string
  tradeoff :: string

record CostedAlternative = Alternative +
  cost :: rat

text \<open>
  What the dialog shows, when it is open, for each conflict and each alternative:
  \<^verbatim>\<open>
  if (!isOpen) return null;
  ...
  {conflicts.map((conflict, idx) => ( ...
      {conflict.constraint} ...
      Required: {conflict.required} | Achievable: {conflict.achievable} ... ))}
  {alternatives.map((alt, idx) => (
      <motion.button key={idx} ... onClick={() => onSelect(alt)} ...>
        ... {alt.name} ...
        {idx === 0 && ( <span ...> Recommended </span> )}
        ... {alt.description} ... <strong>Tradeoff:</strong> {alt.tradeoff} ...
  \<close>
\<close>

record ConflictItem =
  shown_constraint :: string
  shown_values :: string

record AlternativeItem =
  shown_name :: string
  recommended_badge :: bool
  shown_description :: string
  shown_tradeoff :: string

record DialogView =
  conflict_items :: "ConflictItem list"
  alternative_items :: "AlternativeItem list"

definition ConstraintNegotiationDialog ::
  "bool \<Rightarrow> Conflict list \<Rightarrow> 'a Alternative_scheme list \<Rightarrow> DialogView option" where
  "ConstraintNegotiationDialog isOpen conflicts alternatives =
     (if \<not> isOpen then None
      else Some
        \<lparr> conflict_items =
            map (\<lambda>(idx, conflict).
                   \<lparr> shown_constraint = constraint conflict,
                     shown_values = ''Required: '' @ required conflict
                                     @ '' | Achievable: '' @ achievable conflict \<rparr>)
                (enumerate 0 conflicts),
          alternative_items =
            map (\<lambda>(idx, alt).
                   \<lparr> shown_name = name alt,
                     recommended_badge = (idx = 0),
                     shown_description = description alt,
                     shown_tradeoff = tradeoff alt \<rparr>)
                (enumerate 0 alternatives) \<rparr>)"

subsection \<open>The negotiator\<close>

text \<open>
  Modelled from the spec: the Constraint Negotiator is not among the sources. Section
  4.4: the input is a set of named constraints with required values and a set of
  candidate options each with achieved values; the output is \<open>conflicts\<close> (constraint,
  required, achieved, gap) for every option that fails at least one constraint by more
  than a configured tolerance (domain default 10%), and \<open>alternatives\<close>, ordered by
  ascending cost, the first flagged as recommended.

  A constraint is a lower bound (\<open>min_f1\<close>) or an upper bound (\<open>max_cost\<close>) on a named
  quantity; the gap is the amount by which the achieved value misses the bound; an
  option fails a constraint by more than the tolerance when the gap exceeds that
  fraction of the required value. The ranking is a stable sort by cost.
\<close>

datatype bound = AtLeast | AtMost

record Constraint =
  quantity :: string
  bound :: bound
  required_value :: rat

type_synonym candidate = "string \<Rightarrow> rat"

record NegotiatorConflict =
  nc_constraint :: string
  nc_required :: rat
  nc_achieved :: rat
  nc_gap :: rat

definition default_tolerance :: rat where
  "default_tolerance = 1 / 10"

definition gap_of :: "Constraint \<Rightarrow> rat \<Rightarrow> rat" where
  "gap_of c achieved =
     (case bound c of
        AtLeast \<Rightarrow> required_value c - achieved
      | AtMost \<Rightarrow> achieved - required_value c)"

definition fails_beyond :: "rat \<Rightarrow> candidate \<Rightarrow> Constraint \<Rightarrow> bool" where
  "fails_beyond tolerance opt c =
     (tolerance * \<bar>required_value c\<bar> < gap_of c (opt (quantity c)))"

definition conflict_of :: "candidate \<Rightarrow> Constraint \<Rightarrow> NegotiatorConflict" where
  "conflict_of opt c =
     \<lparr> nc_constraint = quantity c,
       nc_required = required_value c,
       nc_achieved = opt (quantity c),
       nc_gap = gap_of c (opt (quantity c)) \<rparr>"

definition option_conflicts :: "rat \<Rightarrow> Constraint list \<Rightarrow> candidate \<Rightarrow> NegotiatorConflict list" where
  "option_conflicts tolerance cs opt = map (conflict_of opt) (filter (fails_beyond tolerance opt) cs)"

definition detect_conflicts ::
  "rat \<Rightarrow> Constraint list \<Rightarrow> candidate list \<Rightarrow> NegotiatorConflict list" where
  "detect_conflicts tolerance cs opts = concat (map (option_conflicts tolerance cs) opts)"

definition rank_alternatives :: "CostedAlternative list \<Rightarrow> CostedAlternative list" where
  "rank_alternatives alts = sort_key cost alts"

section \<open>Values for the examples\<close>

definition demo_event :: EventData where
  "demo_event =
     \<lparr> ev_message = Some ''Checking quotas'', ev_step = None, ev_count = Some ''2'',
       ev_models = Some [''distilbert'', ''bert-base''], ev_job_ids = Some [''job-1'', ''job-2''],
       ev_model = Some ''distilbert'', ev_top_model = Some ''distilbert'' \<rparr>"

definition demo_locals :: "SendLocals \<times> Job list" where
  "demo_locals = (\<lparr> agentResponse = [], currentThinkingSteps = [] \<rparr>, [])"

definition demo_alternatives :: "CostedAlternative list" where
  "demo_alternatives =
     [\<lparr> name = ''Larger GPU'', description = ''Train on ml.g5.2xlarge'',
        tradeoff = ''Exceeds the budget'', cost = 5 \<rparr>,
      \<lparr> name = ''Smaller model'', description = ''Fine-tune the distilled model'',
        tradeoff = ''F1 about 3 points lower'', cost = 3 / 2 \<rparr>]"

definition demo_view :: DialogView where
  "demo_view =
     \<lparr> conflict_items = [],
       alternative_items =
         [\<lparr> shown_name = ''Smaller model'', recommended_badge = True,
            shown_description = ''Fine-tune the distilled model'',
            shown_tradeoff = ''F1 about 3 points lower'' \<rparr>,
          \<lparr> shown_name = ''Larger GPU'', recommended_badge = False,
            shown_description = ''Train on ml.g5.2xlarge'',
            shown_tradeoff = ''Exceeds the budget'' \<rparr>] \<rparr>"

section \<open>Properties of the cost calculator\<close>

lemma calculateCost_cases:
  "calculateCost t False False = t * (526 / 1000)"
  "calculateCost t True False = t * (526 / 1000) * (3 / 10)"
  "calculateCost t False True = t * (526 / 1000) * (15 / 100)"
  "calculateCost t True True = t * (526 / 1000) * (3 / 10) * (15 / 100)"
  by (simp_all add: calculateCost_def)

text \<open>
  C10. For a non-negative estimated time the calculated cost never exceeds the on-demand
  base cost \<open>estimatedTime * 0.526\<close>; the spot toggle multiplies the cost by 0.3 and the
  CPU toggle by 0.15, both together by 0.3 * 0.15; switching a toggle on never raises the
  cost, and the savings shown (base cost minus calculated cost) are never negative.
\<close>

theorem calculateCost_discounts:
  assumes "0 \<le> t"
  shows "calculateCost t useSpot useCPU \<le> t * (526 / 1000)
       \<and> calculateCost t True useCPU = calculateCost t False useCPU * (3 / 10)
       \<and> calculateCost t useSpot True = calculateCost t useSpot False * (15 / 100)
       \<and> calculateCost t True True = t * (526 / 1000) * (3 / 10) * (15 / 100)
       \<and> calculateCost t True useCPU \<le> calculateCost t False useCPU
       \<and> calculateCost t useSpot True \<le> calculateCost t useSpot False
       \<and> 0 \<le> savings t useSpot useCPU"
proof -
  have base: "0 \<le> t * (526 / 1000)" using assms by simp
  show ?thesis
    using base
    by (cases useSpot; cases useCPU) (simp_all add: calculateCost_cases savings_def)
qed

theorem calculateCost_discounts_witness:
  "(0::rat) \<le> 10
   \<and> calculateCost 10 True True = 2367 / 10000
   \<and> calculateCost 10 True True \<le> 10 * (526 / 1000)
   \<and> 0 \<le> savings 10 True True"
  using calculateCost_discounts [of 10 True True]
  by (simp add: calculateCost_cases)

section \<open>Properties of the budget display\<close>





lemma BudgetDisplay_in_range_example:
  "leftShown (BudgetDisplay (Some 60) (Some 100) None) = Num 40
   \<and> percentUsed (BudgetDisplay (Some 60) (Some 100) None) = Num 60"
  by (simp add: BudgetDisplay_def Let_def js_div_def js_minus_def js_result_def js_default_def
        double_overflow_def)

lemma BudgetDisplay_overspent_example:
  "leftShown (BudgetDisplay (Some 60) None None) = Num (- 10)
   \<and> percentUsed (BudgetDisplay (Some 60) None None) = Num 120"
  by (simp add: BudgetDisplay_def Let_def js_div_def js_minus_def js_result_def js_default_def
        double_overflow_def)

lemma BudgetDisplay_zero_limit_example:
  "percentUsed (BudgetDisplay (Some 5) (Some 0) None) = Infinity
   \<and> percentUsed (BudgetDisplay None (Some 0) None) = NaN"
  by (simp add: BudgetDisplay_def Let_def js_div_def js_default_def)

lemma BudgetDisplay_overflow_example:
  "percentUsed (BudgetDisplay (Some (10 ^ 308)) (Some (1 / 10 ^ 308)) None) = Infinity"
  by (simp add: BudgetDisplay_def Let_def js_div_def js_result_def js_default_def
        double_overflow_def)

section \<open>Properties of the budget gate\<close>

lemma canAfford_headroom:
  "canAfford tr sc amount = (amount \<le> limit (tr sc) - spent (tr sc))"
  by (auto simp: canAfford_def)

lemma paid_action_gate:
  "(\<exists>tr'. paid_action tr sid amount = Inr tr')
     = (amount \<le> min (limit (tr (SessionScope sid)) - spent (tr (SessionScope sid)))
                       (limit (tr GlobalScope) - spent (tr GlobalScope)))"
  by (auto simp: paid_action_def canAfford_headroom)

lemma paid_action_refused_example:
  "paid_action demo_tracker ''s1'' 6 = Inl BudgetExceeded"
  by (simp add: paid_action_def canAfford_def demo_tracker_def demo_budget_def)

text \<open>
  C3. A paid action proceeds only when \<open>canAfford\<close> passes in the session scope and in
  the global scope, so its cost is at most the smaller of the two headrooms. After a
  paid action that went through, \<open>spent \<le> limit\<close> holds in the session's scope and in
  the global scope, \<open>remaining\<close> is limit minus spent there and is not negative, limits
  are untouched, the other scopes are as they were, and a scope that was within its
  limit before is within it after.
\<close>

theorem paid_action_keeps_budget:
  assumes ok: "paid_action tr sid amount = Inr tr'"
  shows "canAfford tr (SessionScope sid) amount \<and> canAfford tr GlobalScope amount
       \<and> amount \<le> min (limit (tr (SessionScope sid)) - spent (tr (SessionScope sid)))
                        (limit (tr GlobalScope) - spent (tr GlobalScope))
       \<and> spent (tr' (SessionScope sid)) = spent (tr (SessionScope sid)) + amount
       \<and> spent (tr' GlobalScope) = spent (tr GlobalScope) + amount
       \<and> (\<forall>sc. limit (tr' sc) = limit (tr sc))
       \<and> (\<forall>sc \<in> {SessionScope sid, GlobalScope}.
             spent (tr' sc) \<le> limit (tr' sc)
           \<and> remaining (tr' sc) = limit (tr' sc) - spent (tr' sc)
           \<and> 0 \<le> remaining (tr' sc))
       \<and> (\<forall>sc. sc \<notin> {SessionScope sid, GlobalScope} \<longrightarrow> tr' sc = tr sc)
       \<and> (\<forall>sc. spent (tr sc) \<le> limit (tr sc) \<longrightarrow> spent (tr' sc) \<le> limit (tr' sc))"
proof -
  let ?s = "SessionScope sid"
  have gate: "canAfford tr ?s amount" "canAfford tr GlobalScope amount"
    using ok by (auto simp: paid_action_def split: if_splits)
  have tr': "tr' = record_spend (record_spend tr ?s amount) GlobalScope amount"
    using ok by (auto simp: paid_action_def split: if_splits)
  have s: "tr' ?s = (tr ?s)\<lparr> spent := spent (tr ?s) + amount,
                             remaining := limit (tr ?s) - (spent (tr ?s) + amount) \<rparr>"
    by (simp add: tr' record_spend_def)
  have g: "tr' GlobalScope =
             (tr GlobalScope)\<lparr> spent := spent (tr GlobalScope) + amount,
                               remaining := limit (tr GlobalScope) - (spent (tr GlobalScope) + amount) \<rparr>"
    by (simp add: tr' record_spend_def)
  have other: "tr' sc = tr sc" if "sc \<notin> {?s, GlobalScope}" for sc
    using that by (simp add: tr' record_spend_def)
  have lim: "limit (tr' sc) = limit (tr sc)" for sc
    by (cases "sc \<in> {?s, GlobalScope}") (auto simp: s g other)
  have inv: "spent (tr' sc) \<le> limit (tr' sc)" if "spent (tr sc) \<le> limit (tr sc)" for sc
  proof (cases "sc \<in> {?s, GlobalScope}")
    case True
    then show ?thesis using gate by (auto simp: s g canAfford_def)
  next
    case False
    then show ?thesis using that other by simp
  qed
  show ?thesis
    using gate other inv lim by (auto simp: s g canAfford_def)
qed

theorem paid_action_keeps_budget_witness:
  "\<exists>tr'. paid_action demo_tracker ''s1'' 3 = Inr tr'
     \<and> spent (tr' (SessionScope ''s1'')) = 5 \<and> limit (tr' (SessionScope ''s1'')) = 5
     \<and> remaining (tr' (SessionScope ''s1'')) = 0
     \<and> spent (tr' GlobalScope) = 493 \<and> limit (tr' GlobalScope) = 500
     \<and> remaining (tr' GlobalScope) = 7
     \<and> tr' (SessionScope ''s2'') = demo_tracker (SessionScope ''s2'')"
proof -
  let ?tr' = "record_spend (record_spend demo_tracker (SessionScope ''s1'') 3) GlobalScope 3"
  have ok: "paid_action demo_tracker ''s1'' 3 = Inr ?tr'"
    by (simp add: paid_action_def canAfford_def demo_tracker_def demo_budget_def)
  have vals: "spent (demo_tracker (SessionScope ''s1'')) = 2"
    "limit (demo_tracker (SessionScope ''s1'')) = 5"
    "spent (demo_tracker GlobalScope) = 490" "limit (demo_tracker GlobalScope) = 500"
    by (simp_all add: demo_tracker_def demo_budget_def)
  from paid_action_keeps_budget [OF ok] vals
  have "spent (?tr' (SessionScope ''s1'')) = 5 \<and> limit (?tr' (SessionScope ''s1'')) = 5
     \<and> remaining (?tr' (SessionScope ''s1'')) = 0
     \<and> spent (?tr' GlobalScope) = 493 \<and> limit (?tr' GlobalScope) = 500
     \<and> remaining (?tr' GlobalScope) = 7
     \<and> ?tr' (SessionScope ''s2'') = demo_tracker (SessionScope ''s2'')"
    by simp
  with ok show ?thesis by blast
qed

section \<open>Properties of the ReAct loop\<close>

lemma react_loop_step:
  "\<not> task_complete s \<Longrightarrow> iteration s < m \<Longrightarrow>
   react_loop m c s =
     react_loop m c
       \<lparr> conversation = conversation s @ [fst (c (iteration s) (conversation s))],
         iteration = iteration s + 1,
         task_complete = snd (c (iteration s) (conversation s)) \<rparr>"
  by (subst react_loop.simps) simp

lemma react_loop_done:
  "task_complete s \<or> m \<le> iteration s \<Longrightarrow> react_loop m c s = s"
  by (subst react_loop.simps) auto





lemma handle_turn_completes_example:
  "ending (handle_turn MAX_REACT_ITERATIONS (\<lambda>i conv. (''observation'', i = 2)) [] ''list datasets'')
     = Complete
   \<and> cycles (handle_turn MAX_REACT_ITERATIONS (\<lambda>i conv. (''observation'', i = 2)) [] ''list datasets'')
     = 3"
  by (simp add: handle_turn_def MAX_REACT_ITERATIONS_def react_loop_step react_loop_done Let_def)



section \<open>Properties of the gateway client\<close>

text \<open>
  The mode is fixed by the constructor from the gateway id alone, and the direct call
  reaches the Lambda service only for the four registered tools.
\<close>

lemma GatewayClient_init_mode:
  "fallback_mode (GatewayClient_init gateway_id_arg setting)
     = (gateway_id (GatewayClient_init gateway_id_arg setting) = ''gtw-local-fallback'')"
  by (simp add: GatewayClient_init_def Let_def)

lemma GatewayClient_init_default:
  "GatewayClient_init None ''gtw-local-fallback''
     = \<lparr> gateway_id = ''gtw-local-fallback'', fallback_mode = True \<rparr>"
  by (simp add: GatewayClient_init_def)

lemma invoke_lambda_directly_unregistered:
  "invoke_lambda_directly lambda_invoke ''delete_bucket'' parameters = Inl (KeyError ''delete_bucket'')"
  by (simp add: invoke_lambda_directly_def TOOL_REGISTRY_def)

lemma invoke_lambda_directly_registered:
  "invoke_lambda_directly lambda_invoke ''prepare_dataset'' parameters
     = Inr (lambda_invoke ''llmops-tool-prepare-dataset'' parameters)"
  by (simp add: invoke_lambda_directly_def TOOL_REGISTRY_def)

section \<open>Properties of the job statuses\<close>

text \<open>
  The status a launched job is given is outside the specification's set, and so is the
  second status the loader of active jobs lets through.
\<close>

theorem Job_status_counterexample:
  "status (launched_job ''2025-10-20T10:00:00.000Z'' demo_event ''job-1'') = ''training''
   \<and> ''training'' \<notin> set spec_Job_status_values
   \<and> loadActiveJobs_filter ''pending''
   \<and> ''pending'' \<notin> set spec_Job_status_values"
  by (simp add: launched_job_def spec_Job_status_values_def loadActiveJobs_filter_def)

text \<open>
  C4, amended. Every Job carries a status declared as exactly \<open>queued\<close>, \<open>training\<close>,
  \<open>completed\<close> or \<open>failed\<close>; the status the client gives a job it is told was launched,
  \<open>training\<close>, is one of them; \<open>queued\<close> and \<open>training\<close> are the statuses the pages treat
  as active, and \<open>completed\<close> and \<open>failed\<close> are the only other ones, the terminal states.
\<close>

theorem Job_status_type:
  "set Job_status_values = {''queued'', ''training'', ''completed'', ''failed''}
   \<and> status (launched_job nowIso eventData jid) \<in> set Job_status_values
   \<and> {s \<in> set Job_status_values. isActiveStatus s} = {''queued'', ''training''}
   \<and> {s \<in> set Job_status_values. \<not> isActiveStatus s} = set spec_terminal_states
   \<and> {s \<in> set Job_status_values. isFinishedStatus s} = set spec_terminal_states"
  by (auto simp: Job_status_values_def launched_job_def isActiveStatus_def isFinishedStatus_def
        spec_terminal_states_def)

text \<open>
  Two status tests of the client name a status that the type of \<open>Job\<close> does not have:
  the loader of active jobs lets \<open>pending\<close> through, and the toast of the chat page
  waits for \<open>running\<close>, so it is never shown for a job whose status is of the type.
\<close>

lemma loaded_status_outside_type:
  "loadActiveJobs_filter ''pending'' \<and> ''pending'' \<notin> set Job_status_values"
  by (simp add: loadActiveJobs_filter_def Job_status_values_def)

lemma jobStartedToast_never_for_typed_jobs:
  "status (last jobs) \<in> set Job_status_values \<Longrightarrow> \<not> jobStartedToast jobs"
  by (auto simp: jobStartedToast_def Job_status_values_def)

section \<open>Properties of the stream consumer\<close>

lemma handle_event_unhandled:
  "t \<notin> set handled_event_types \<Longrightarrow> handle_event now t d st = Inr st"
  by (simp add: handle_event_def handled_event_types_def Let_def)

lemma locals_changed:
  "x \<noteq> [] \<Longrightarrow> loc\<lparr> agentResponse := agentResponse loc @ x \<rparr> \<noteq> loc"
  "loc\<lparr> currentThinkingSteps := currentThinkingSteps loc @ [y] \<rparr> \<noteq> loc"
proof -
  show "x \<noteq> [] \<Longrightarrow> loc\<lparr> agentResponse := agentResponse loc @ x \<rparr> \<noteq> loc"
  proof
    assume "x \<noteq> []" and e: "loc\<lparr> agentResponse := agentResponse loc @ x \<rparr> = loc"
    have "agentResponse (loc\<lparr> agentResponse := agentResponse loc @ x \<rparr>) = agentResponse loc"
      by (rule arg_cong [OF e])
    with \<open>x \<noteq> []\<close> show False by simp
  qed
  show "loc\<lparr> currentThinkingSteps := currentThinkingSteps loc @ [y] \<rparr> \<noteq> loc"
  proof
    assume e: "loc\<lparr> currentThinkingSteps := currentThinkingSteps loc @ [y] \<rparr> = loc"
    have "currentThinkingSteps (loc\<lparr> currentThinkingSteps := currentThinkingSteps loc @ [y] \<rparr>)
                   = currentThinkingSteps loc"
      by (rule arg_cong [OF e])
    then show False by simp
  qed
qed

lemma handle_event_handled:
  assumes "t \<in> set handled_event_types"
  shows "handle_event now t demo_event st \<noteq> Inr st"
proof -
  obtain loc jobs where st: "st = (loc, jobs)" by (cases st)
  have "t = ''conversational_response'' \<or> t = ''agent_thinking'' \<or> t = ''workflow_step''
      \<or> t = ''candidates_found'' \<or> t = ''jobs_launched'' \<or> t = ''recommendations_ready''
      \<or> t = ''workflow_complete''"
    using assms by (simp add: handled_event_types_def)
  then show ?thesis
    by (elim disjE)
       (simp_all add: st handle_event_def demo_event_def js_text_def newline_def locals_changed)
qed

text \<open>
  The contract's \<open>error\<close> event has no branch: the consumer leaves its locals as they
  are and a stream that carries nothing else adds no message to the chat. And
  \<open>candidates_found\<close>, which has a branch, is not an event of the contract.
\<close>

theorem sse_consumer_contract_counterexample:
  "''error'' \<in> set spec_event_types
   \<and> ''error'' \<notin> set handled_event_types
   \<and> handle_event ''2025-10-20T10:00:00.000Z'' ''error'' demo_event demo_locals = Inr demo_locals
   \<and> messages (sendMessage_finish ''10:00:00'' ''2025-10-20T10:00:00.000Z''
                  (OkStream [SseEvent ''error'' demo_event]) (hook (initial_world ''session-1''))) = []
   \<and> ''candidates_found'' \<in> set handled_event_types
   \<and> ''candidates_found'' \<notin> set spec_event_types"
  by (simp add: spec_event_types_def handled_event_types_def handle_event_def demo_locals_def
        sendMessage_finish_def initial_world_def Let_def)

text \<open>
  C5, amended. The SSE consumer in \<open>useAgent\<close> handles exactly seven event types,
  \<open>conversational_response\<close>, \<open>agent_thinking\<close>, \<open>workflow_step\<close>, \<open>candidates_found\<close>,
  \<open>jobs_launched\<close>, \<open>recommendations_ready\<close> and \<open>workflow_complete\<close>: an event of any
  other type leaves the response text, the thinking steps and the jobs unchanged and
  raises nothing, and for each of the seven there is event data that changes them.
\<close>

theorem sse_consumer_handles_its_seven:
  "set handled_event_types =
     {''conversational_response'', ''agent_thinking'', ''workflow_step'', ''candidates_found'',
      ''jobs_launched'', ''recommendations_ready'', ''workflow_complete''}
   \<and> (t \<notin> set handled_event_types \<longrightarrow> handle_event nowIso t d st = Inr st)
   \<and> (t \<in> set handled_event_types \<longrightarrow> (\<exists>d'. handle_event nowIso t d' st \<noteq> Inr st))"
proof (intro conjI impI)
  show "set handled_event_types =
     {''conversational_response'', ''agent_thinking'', ''workflow_step'', ''candidates_found'',
      ''jobs_launched'', ''recommendations_ready'', ''workflow_complete''}"
    unfolding handled_event_types_def by (simp only: list.set)
next
  assume "t \<notin> set handled_event_types"
  then show "handle_event nowIso t d st = Inr st"
    by (rule handle_event_unhandled)
next
  assume "t \<in> set handled_event_types"
  then have "handle_event nowIso t demo_event st \<noteq> Inr st"
    by (rule handle_event_handled)
  then show "\<exists>d'. handle_event nowIso t d' st \<noteq> Inr st" ..
qed

theorem sse_consumer_handles_its_seven_witness:
  "handle_event ''2025-10-20T10:00:00.000Z'' ''tool-result'' demo_event demo_locals = Inr demo_locals
   \<and> (\<exists>d'. handle_event ''2025-10-20T10:00:00.000Z'' ''agent_thinking'' d' demo_locals
            \<noteq> Inr demo_locals)"
proof -
  have a: "''tool-result'' \<notin> set handled_event_types"
    by (simp add: handled_event_types_def)
  have b: "''agent_thinking'' \<in> set handled_event_types"
    by (simp add: handled_event_types_def)
  have 1: "handle_event ''2025-10-20T10:00:00.000Z'' ''tool-result'' demo_event demo_locals
             = Inr demo_locals"
    using sse_consumer_handles_its_seven
            [of "''tool-result''" "''2025-10-20T10:00:00.000Z''" demo_event demo_locals] a
    by (elim conjE) (erule (1) mp)
  have 2: "\<exists>d'. handle_event ''2025-10-20T10:00:00.000Z'' ''agent_thinking'' d' demo_locals
                 \<noteq> Inr demo_locals"
    using sse_consumer_handles_its_seven
            [of "''agent_thinking''" "''2025-10-20T10:00:00.000Z''" demo_event demo_locals] b
    by (elim conjE) (erule (1) mp)
  from 1 2 show ?thesis by (rule conjI)
qed

section \<open>Properties of the send guard\<close>

text \<open>
  A call that sees \<open>isSending\<close> set returns at once: nothing is requested and the state
  is the one before. While every call goes through the \<open>sendMessage\<close> of a render made
  after the previous call, at most one request is in flight.
\<close>

lemma sendMessage_guard_frame:
  "seen_isSending closure \<Longrightarrow> sendMessage_begin closure text nowTime h = (h, None)"
  by (simp add: sendMessage_begin_def)

lemma sendMessage_guard_open:
  "\<not> seen_isSending closure \<Longrightarrow>
   snd (sendMessage_begin closure text nowTime h)
     = Some \<lparr> req_message = text, req_session_id = seen_sessionId closure \<rparr>
   \<and> isSending (fst (sendMessage_begin closure text nowTime h))"
  by (simp add: sendMessage_begin_def)

lemma send_blocked_frame:
  "seen_isSending (held w) \<Longrightarrow> act (Send text nowTime) w = w"
  by (simp add: sendMessage_begin_def)

lemma stale_closure_sends_twice:
  "\<not> seen_isSending (held w) \<Longrightarrow>
   length (in_flight (run [Send a nowTime, Send b nowTime'] w)) = length (in_flight w) + 2"
  by (simp add: run_def sendMessage_begin_def)

lemma sendMessage_finish_resets:
  "isSending (sendMessage_finish nowTime nowIso resp h) = False
   \<and> isTyping (sendMessage_finish nowTime nowIso resp h) = False
   \<and> sessionId (sendMessage_finish nowTime nowIso resp h) = sessionId h"
  by (simp add: sendMessage_finish_def Let_def split: sum.splits prod.splits)

lemma one_at_a_time_fresh:
  assumes "one_at_a_time w"
  shows "one_at_a_time (act Render w)"
    and "one_at_a_time (act (Send text nowTime) (act Render w))"
    and "one_at_a_time (act (Settle nowTime nowIso resp) w)"
proof -
  show "one_at_a_time (act Render w)"
    using assms by (simp add: one_at_a_time_def)
  show "one_at_a_time (act (Send text nowTime) (act Render w))"
    using assms
    by (cases "isSending (hook w)")
       (auto simp: one_at_a_time_def render_def sendMessage_begin_def)
  show "one_at_a_time (act (Settle nowTime nowIso resp) w)"
    using assms
    by (cases "in_flight w")
       (auto simp: one_at_a_time_def sendMessage_finish_resets)
qed

text \<open>
  C8. While a \<open>sendMessage\<close> call is in flight, a further call on the same hook should
  return at once, request nothing and leave \<open>messages\<close>, \<open>activeJobs\<close>, \<open>isTyping\<close> and
  \<open>sessionId\<close> alone, so that at most one chat-stream request is in flight at a time.
  The guard reads the \<open>isSending\<close> of the render that built the function: a second call
  through the same function, before React has rendered again, is not stopped. It
  appends its message and issues its request, and two requests are in flight. With a
  render between the two calls the second one is stopped.
\<close>

theorem sendMessage_stale_guard:
  "map req_message
     (in_flight (run [Send ''first'' ''10:00:00'', Send ''second'' ''10:00:00'']
                     (initial_world ''session-1'')))
     = [''first'', ''second'']
   \<and> map message
        (messages (hook (run [Send ''first'' ''10:00:00'', Send ''second'' ''10:00:00'']
                             (initial_world ''session-1''))))
     = [Some ''first'', Some ''second'']
   \<and> map req_message
        (in_flight (run [Send ''first'' ''10:00:00'', Render, Send ''second'' ''10:00:00'']
                        (initial_world ''session-1'')))
     = [''first'']"
  by (simp add: run_def initial_world_def render_def sendMessage_begin_def Let_def)

section \<open>Properties of the negotiation dialog\<close>

lemma dialog_closed: "ConstraintNegotiationDialog False conflicts alternatives = None"
  by (simp add: ConstraintNegotiationDialog_def)

lemma map_enumerate_ignore_index:
  "map (\<lambda>(idx, x). f x) (enumerate n xs) = map f xs"
  by (induction xs arbitrary: n) simp_all

lemma dialog_open:
  "ConstraintNegotiationDialog True conflicts alternatives =
     Some \<lparr> conflict_items =
              map (\<lambda>conflict.
                     \<lparr> shown_constraint = constraint conflict,
                       shown_values = ''Required: '' @ required conflict
                                       @ '' | Achievable: '' @ achievable conflict \<rparr>) conflicts,
            alternative_items =
              map (\<lambda>(idx, alt).
                     \<lparr> shown_name = name alt, recommended_badge = (idx = 0),
                       shown_description = description alt, shown_tradeoff = tradeoff alt \<rparr>)
                  (enumerate 0 alternatives) \<rparr>"
  unfolding ConstraintNegotiationDialog_def
  by (simp only: map_enumerate_ignore_index simp_thms if_False)

lemma dialog_alternative_item:
  assumes "ConstraintNegotiationDialog True conflicts alternatives = Some view"
      and "i < length alternatives"
  shows "alternative_items view ! i =
           \<lparr> shown_name = name (alternatives ! i), recommended_badge = (i = 0),
             shown_description = description (alternatives ! i),
             shown_tradeoff = tradeoff (alternatives ! i) \<rparr>"
  using assms by (auto simp: dialog_open nth_enumerate_eq)

lemma dialog_alternative_count:
  "ConstraintNegotiationDialog True conflicts alternatives = Some view
   \<Longrightarrow> length (alternative_items view) = length alternatives"
  by (auto simp: dialog_open)

lemma rank_alternatives_sorted: "sorted (map cost (rank_alternatives alts))"
  by (simp add: rank_alternatives_def sorted_sort_key)

lemma rank_alternatives_mset: "mset (rank_alternatives alts) = mset alts"
  by (simp add: rank_alternatives_def)

lemma rank_alternatives_first_cheapest:
  assumes "a \<in> set alts"
  shows "cost (rank_alternatives alts ! 0) \<le> cost a"
proof -
  let ?r = "rank_alternatives alts"
  have s: "set ?r = set alts" by (simp add: rank_alternatives_def)
  with assms obtain j where j: "j < length ?r" "?r ! j = a"
    by (metis in_set_conv_nth)
  have "map cost ?r ! 0 \<le> map cost ?r ! j"
    using rank_alternatives_sorted [of alts] j(1) by (simp add: sorted_iff_nth_mono del: nth_map)
  moreover have "0 < length ?r" using j(1) by (cases ?r) simp_all
  ultimately show ?thesis using j by simp
qed

lemma dialog_badge_only_on_first:
  assumes "ConstraintNegotiationDialog isOpen conflicts alternatives = Some view"
  shows "length (alternative_items view) = length alternatives
       \<and> (\<forall>i < length alternatives. recommended_badge (alternative_items view ! i) = (i = 0))"
proof -
  from assms have o: "isOpen" by (cases isOpen) (simp_all add: dialog_closed)
  with assms have v: "ConstraintNegotiationDialog True conflicts alternatives = Some view" by simp
  show ?thesis
    using dialog_alternative_count [OF v] dialog_alternative_item [OF v] by simp
qed

text \<open>
  C7. For every negotiation result with a non-empty list of alternatives, the
  alternatives are in ascending order of cost and exactly the first one is flagged as
  recommended: the dialog shows as many alternatives as there are, puts the
  Recommended badge on the one at index 0 and on no other, and that one is the first of
  the ranking, than which no alternative is cheaper.
\<close>

theorem recommended_is_first_and_cheapest:
  assumes nonempty: "alternatives \<noteq> []"
      and shown: "ConstraintNegotiationDialog isOpen conflicts (rank_alternatives alternatives) = Some view"
  shows "sorted (map cost (rank_alternatives alternatives))
       \<and> mset (rank_alternatives alternatives) = mset alternatives
       \<and> length (alternative_items view) = length alternatives
       \<and> (\<forall>i < length alternatives. recommended_badge (alternative_items view ! i) = (i = 0))
       \<and> shown_name (alternative_items view ! 0) = name (rank_alternatives alternatives ! 0)
       \<and> (\<forall>a \<in> set alternatives. cost (rank_alternatives alternatives ! 0) \<le> cost a)"
proof -
  let ?ranked = "rank_alternatives alternatives"
  have len: "length ?ranked = length alternatives"
    by (simp add: rank_alternatives_def)
  from shown have "isOpen" by (cases isOpen) (simp_all add: dialog_closed)
  with shown have v: "ConstraintNegotiationDialog True conflicts ?ranked = Some view" by simp
  have n: "length (alternative_items view) = length alternatives"
    using dialog_badge_only_on_first [OF shown] len by simp
  have badge: "\<forall>i < length alternatives. recommended_badge (alternative_items view ! i) = (i = 0)"
    using dialog_badge_only_on_first [OF shown] len by simp
  have "0 < length ?ranked" using nonempty len by simp
  then have first: "shown_name (alternative_items view ! 0) = name (?ranked ! 0)"
    using dialog_alternative_item [OF v] by simp
  have cheapest: "\<forall>a \<in> set alternatives. cost (?ranked ! 0) \<le> cost a"
    using rank_alternatives_first_cheapest by blast
  show ?thesis
    using rank_alternatives_sorted rank_alternatives_mset n badge first cheapest
    by (intro conjI)
qed

lemma rank_demo: "rank_alternatives demo_alternatives = rev demo_alternatives"
  by (simp add: rank_alternatives_def demo_alternatives_def)

theorem recommended_is_first_and_cheapest_witness:
  "ConstraintNegotiationDialog True [] (rank_alternatives demo_alternatives) = Some demo_view
   \<and> sorted (map cost (rank_alternatives demo_alternatives))
   \<and> length (alternative_items demo_view) = length demo_alternatives
   \<and> recommended_badge (alternative_items demo_view ! 0) = True
   \<and> recommended_badge (alternative_items demo_view ! 1) = False
   \<and> shown_name (alternative_items demo_view ! 0) = name (rank_alternatives demo_alternatives ! 0)"
proof -
  have ne: "demo_alternatives \<noteq> []" by (simp add: demo_alternatives_def)
  have v: "ConstraintNegotiationDialog True [] (rank_alternatives demo_alternatives) = Some demo_view"
    unfolding rank_demo by (simp add: dialog_open demo_alternatives_def demo_view_def)
  have two: "length demo_alternatives = 2" by (simp add: demo_alternatives_def)
  note facts = recommended_is_first_and_cheapest [OF ne v]
  from facts have "\<forall>i < length demo_alternatives.
      recommended_badge (alternative_items demo_view ! i) = (i = 0)"
    by (elim conjE)
  then have b: "recommended_badge (alternative_items demo_view ! 0) = True"
      "recommended_badge (alternative_items demo_view ! 1) = False"
    by (simp_all add: two)
  from v facts b show ?thesis by (elim conjE) (intro conjI)
qed

lemma detect_conflicts_set:
  "set (detect_conflicts tolerance cs opts)
     = {conflict_of opt c | opt c. opt \<in> set opts \<and> c \<in> set cs \<and> fails_beyond tolerance opt c}"
  by (auto simp: detect_conflicts_def option_conflicts_def)

lemma option_conflicts_nonempty:
  "(option_conflicts tolerance cs opt \<noteq> []) = (\<exists>c \<in> set cs. fails_beyond tolerance opt c)"
  by (auto simp: option_conflicts_def filter_empty_conv)

lemma conflict_gap_exceeds_tolerance:
  "x \<in> set (detect_conflicts tolerance cs opts) \<Longrightarrow> tolerance * \<bar>nc_required x\<bar> < nc_gap x"
  by (auto simp: detect_conflicts_set conflict_of_def fails_beyond_def)

text \<open>
  The dialog's \<open>Conflict\<close> has no \<open>gap\<close>, and neither client type has a field named
  \<open>achieved\<close>.
\<close>

theorem client_Conflict_fields_counterexample:
  "''gap'' \<in> set spec_conflict_fields
   \<and> ''gap'' \<notin> set (map fst dialog_Conflict_fields)
   \<and> length dialog_Conflict_fields = 3
   \<and> ''achieved'' \<in> set spec_conflict_fields
   \<and> ''achieved'' \<notin> set (map fst agent_Conflict_fields)
   \<and> ''achieved'' \<notin> set (map fst dialog_Conflict_fields)"
  by (simp add: spec_conflict_fields_def dialog_Conflict_fields_def agent_Conflict_fields_def)

text \<open>
  C6, amended. Every conflict produced by the Constraint Negotiator carries the four
  values constraint, required, achieved and gap, and an option has a conflict exactly
  when it fails at least one constraint by more than the configured tolerance. Of the
  client-side types, \<open>Conflict\<close> of the agent types carries four fields, named
  \<open>constraint\<close>, \<open>required\<close>, \<open>achievable\<close> and \<open>gap\<close>, and \<open>Conflict\<close> of the
  constraint-negotiation dialog carries three, \<open>constraint\<close>, \<open>required\<close> and
  \<open>achievable\<close>, which are what the dialog shows of each conflict.
\<close>

theorem conflicts_and_client_Conflict_types:
  "set (detect_conflicts tolerance cs opts)
     = {conflict_of opt c | opt c. opt \<in> set opts \<and> c \<in> set cs \<and> fails_beyond tolerance opt c}
   \<and> (option_conflicts tolerance cs opt \<noteq> []) = (\<exists>c \<in> set cs. fails_beyond tolerance opt c)
   \<and> nc_constraint (conflict_of opt c) = quantity c
   \<and> nc_required (conflict_of opt c) = required_value c
   \<and> nc_achieved (conflict_of opt c) = opt (quantity c)
   \<and> nc_gap (conflict_of opt c) = gap_of c (opt (quantity c))
   \<and> map fst agent_Conflict_fields = [''constraint'', ''required'', ''achievable'', ''gap'']
   \<and> map fst dialog_Conflict_fields = [''constraint'', ''required'', ''achievable'']
   \<and> (\<exists>view. ConstraintNegotiationDialog True conflicts alternatives = Some view
         \<and> conflict_items view =
             map (\<lambda>conflict.
                    \<lparr> shown_constraint = constraint conflict,
                      shown_values = ''Required: '' @ required conflict
                                      @ '' | Achievable: '' @ achievable conflict \<rparr>) conflicts)"
proof -
  have fields: "map fst agent_Conflict_fields = [''constraint'', ''required'', ''achievable'', ''gap'']"
    "map fst dialog_Conflict_fields = [''constraint'', ''required'', ''achievable'']"
    by (simp_all add: agent_Conflict_fields_def dialog_Conflict_fields_def)
  have vals: "nc_constraint (conflict_of opt c) = quantity c"
    "nc_required (conflict_of opt c) = required_value c"
    "nc_achieved (conflict_of opt c) = opt (quantity c)"
    "nc_gap (conflict_of opt c) = gap_of c (opt (quantity c))"
    by (simp_all add: conflict_of_def)
  have shown: "\<exists>view. ConstraintNegotiationDialog True conflicts alternatives = Some view
         \<and> conflict_items view =
             map (\<lambda>conflict.
                    \<lparr> shown_constraint = constraint conflict,
                      shown_values = ''Required: '' @ required conflict
                                      @ '' | Achievable: '' @ achievable conflict \<rparr>) conflicts"
    by (simp only: dialog_open option.inject simp_thms ex_simps DialogView.simps)
  from detect_conflicts_set option_conflicts_nonempty vals fields shown
  show ?thesis by (intro conjI)
qed

text \<open>
  With the default tolerance of a tenth, an option that reaches 87 where at least 90
  is required is within tolerance, and one that costs 5 where at most 2 is allowed is
  not.
\<close>

lemma detect_conflicts_example:
  "detect_conflicts default_tolerance
     [\<lparr> quantity = ''f1'', bound = AtLeast, required_value = 90 \<rparr>,
      \<lparr> quantity = ''cost'', bound = AtMost, required_value = 2 \<rparr>]
     [\<lambda>q. if q = ''f1'' then 87 else 3 / 2,
      \<lambda>q. if q = ''f1'' then 92 else 5]
   = [\<lparr> nc_constraint = ''cost'', nc_required = 2, nc_achieved = 5, nc_gap = 3 \<rparr>]"
  by (simp add: detect_conflicts_def option_conflicts_def fails_beyond_def gap_of_def
        conflict_of_def default_tolerance_def)

end
